theory Spec2Isabelle
  imports Complex_Main "HOL-Library.Sublist"
begin

section \<open>An interactive detective story: generation client and game state machine\<close>

text \<open>
  The program is a React application. \<^verbatim>\<open>services/geminiService\<close> builds the
  prompts, calls the generative service and validates its answer
  (\<^verbatim>\<open>formatStoryHistory\<close>, \<^verbatim>\<open>generateStoryScene\<close>, \<^verbatim>\<open>generateHint\<close>);
  \<^verbatim>\<open>App.tsx\<close> holds the game state and its handlers (\<^verbatim>\<open>fetchScene\<close>,
  \<^verbatim>\<open>handleStartGame\<close>, \<^verbatim>\<open>handleResetGame\<close>, \<^verbatim>\<open>handleChoice\<close>,
  \<^verbatim>\<open>handleGetHint\<close>). The embedding follows the source function by function.
  An asynchronous function is split where it awaits: the part that runs synchronously
  returns the new state and the effects it started, and the continuation takes the
  outcome of the awaited call as an argument.
\<close>

subsection \<open>Strings\<close>

text \<open>
  A JavaScript string is a sequence of UTF-16 code units, here natural numbers below
  \<open>0x10000\<close>. Every literal of the source lies in the Basic Multilingual Plane, so a code
  unit is a code point. The Arabic literals are given by their code units, with a gloss.
\<close>

type_synonym jsstring = "nat list"

definition ascii :: "string \<Rightarrow> jsstring" where
  "ascii s = map of_char s"

text \<open>The decimal digits of an array index plus one, as a template literal prints it.\<close>

fun showNat :: "nat \<Rightarrow> jsstring" where
  "showNat n = (if n < 10 then [48 + n] else showNat (n div 10) @ [48 + n mod 10])"

declare showNat.simps [simp del]

text \<open>\<^verbatim>\<open>Array.prototype.join\<close> on an array of strings.\<close>

fun join :: "jsstring \<Rightarrow> jsstring list \<Rightarrow> jsstring" where
  "join sep [] = []"
| "join sep [x] = x"
| "join sep (x # y # ys) = x @ sep @ join sep (y # ys)"

text \<open>
  \<^verbatim>\<open>String.prototype.trim\<close>: white space and line terminators of ECMAScript are
  removed at both ends.
\<close>

definition isWhiteSpace :: "nat \<Rightarrow> bool" where
  "isWhiteSpace c =
     (c \<in> set [0x9, 0xA, 0xB, 0xC, 0xD, 0x20, 0xA0, 0x1680, 0x2028, 0x2029, 0x202F, 0x205F,
               0x3000, 0xFEFF]
      \<or> (0x2000 \<le> c \<and> c \<le> 0x200A))"

definition trim :: "jsstring \<Rightarrow> jsstring" where
  "trim s = rev (dropWhile isWhiteSpace (rev (dropWhile isWhiteSpace s)))"

subsection \<open>The literals of the source\<close>

text \<open>The text \<^verbatim>\<open>formatStoryHistory\<close> returns for an empty history (Arabic for "There is no history yet.").\<close>

definition noHistoryText :: jsstring where
  "noHistoryText =
    [0x644, 0x627, 0x20, 0x64A, 0x648, 0x62C, 0x62F, 0x20, 0x62A, 0x627, 0x631, 0x64A,
     0x62E, 0x20, 0x62D, 0x62A, 0x649, 0x20, 0x627, 0x644, 0x622, 0x646, 0x2E]"

text \<open>The label opening each serialized turn: the Arabic word for "Scene" (with the article) and a space; the turn number follows.\<close>

definition sceneLabel :: jsstring where
  "sceneLabel =
    [0x627, 0x644, 0x645, 0x634, 0x647, 0x62F, 0x20]"

text \<open>A line feed, then the Arabic label for "Choice made" (literally "the decision taken"), a colon and a space.\<close>

definition choiceLabel :: jsstring where
  "choiceLabel =
    [0xA, 0x627, 0x644, 0x642, 0x631, 0x627, 0x631, 0x20, 0x627, 0x644, 0x645, 0x62A,
     0x62E, 0x630, 0x3A, 0x20]"

text \<open>The sentence both scene prompts open with (Arabic for "You are a writer of interactive detective stories."), and a space.\<close>

definition writerRole :: jsstring where
  "writerRole =
    [0x623, 0x646, 0x62A, 0x20, 0x643, 0x627, 0x62A, 0x628, 0x20, 0x642, 0x635, 0x635,
     0x20, 0x628, 0x648, 0x644, 0x64A, 0x633, 0x64A, 0x629, 0x20, 0x62A, 0x641, 0x627,
     0x639, 0x644, 0x64A, 0x629, 0x2E, 0x20]"

text \<open>Opening prompt, after the role: start a short mysterious Arabic story in the style of Detective Conan, put the player before a decision, describe the scene, "then".\<close>

definition openingSetup :: jsstring where
  "openingSetup =
    [0x627, 0x628, 0x62F, 0x623, 0x20, 0x642, 0x635, 0x629, 0x20, 0x642, 0x635, 0x64A,
     0x631, 0x629, 0x20, 0x648, 0x63A, 0x627, 0x645, 0x636, 0x629, 0x20, 0x628, 0x627,
     0x644, 0x644, 0x63A, 0x629, 0x20, 0x627, 0x644, 0x639, 0x631, 0x628, 0x64A, 0x629,
     0x20, 0x639, 0x644, 0x649, 0x20, 0x637, 0x631, 0x627, 0x632, 0x20, 0x627, 0x644,
     0x645, 0x62D, 0x642, 0x642, 0x20, 0x643, 0x648, 0x646, 0x627, 0x646, 0x2E, 0x20,
     0x64A, 0x62C, 0x628, 0x20, 0x623, 0x646, 0x20, 0x62A, 0x636, 0x639, 0x20, 0x627,
     0x644, 0x644, 0x627, 0x639, 0x628, 0x20, 0x641, 0x64A, 0x20, 0x645, 0x648, 0x642,
     0x641, 0x20, 0x64A, 0x62A, 0x637, 0x644, 0x628, 0x20, 0x645, 0x646, 0x647, 0x20,
     0x627, 0x62A, 0x62E, 0x627, 0x630, 0x20, 0x642, 0x631, 0x627, 0x631, 0x2E, 0x20,
     0x642, 0x62F, 0x645, 0x20, 0x648, 0x635, 0x641, 0x627, 0x64B, 0x20, 0x644, 0x644,
     0x645, 0x634, 0x647, 0x62F, 0x60C, 0x20, 0x62B, 0x645, 0x20]"

text \<open>Opening prompt: Arabic for "offer 3 different choices"; the only digit of the prompt is the 3 (code unit 0x33).\<close>

definition threeChoicesInstruction :: jsstring where
  "threeChoicesInstruction =
    [0x642, 0x62F, 0x645, 0x20, 0x33, 0x20, 0x62E, 0x64A, 0x627, 0x631, 0x627, 0x62A,
     0x20, 0x645, 0x62E, 0x62A, 0x644, 0x641, 0x629]"

text \<open>Opening prompt: "that the player can take. The story must be suspenseful." and a space.\<close>

definition openingMiddle :: jsstring where
  "openingMiddle =
    [0x20, 0x64A, 0x645, 0x643, 0x646, 0x20, 0x644, 0x644, 0x627, 0x639, 0x628, 0x20,
     0x627, 0x62A, 0x62E, 0x627, 0x630, 0x647, 0x627, 0x2E, 0x20, 0x64A, 0x62C, 0x628,
     0x20, 0x623, 0x646, 0x20, 0x62A, 0x643, 0x648, 0x646, 0x20, 0x627, 0x644, 0x642,
     0x635, 0x629, 0x20, 0x645, 0x634, 0x648, 0x642, 0x629, 0x2E, 0x20]"

text \<open>Opening prompt, last sentence: Arabic for "Do not end the story at this stage."\<close>

definition doNotEndInstruction :: jsstring where
  "doNotEndInstruction =
    [0x644, 0x627, 0x20, 0x62A, 0x646, 0x647, 0x650, 0x20, 0x627, 0x644, 0x642, 0x635,
     0x629, 0x20, 0x641, 0x64A, 0x20, 0x647, 0x630, 0x647, 0x20, 0x627, 0x644, 0x645,
     0x631, 0x62D, 0x644, 0x629, 0x2E]"

text \<open>Continuation prompt, after the role: "These are the events of the story so far:", a line feed and the eight spaces of the template literal's indentation.\<close>

definition continuationIntro :: jsstring where
  "continuationIntro =
    [0x647, 0x630, 0x647, 0x20, 0x647, 0x64A, 0x20, 0x623, 0x62D, 0x62F, 0x627, 0x62B,
     0x20, 0x627, 0x644, 0x642, 0x635, 0x629, 0x20, 0x62D, 0x62A, 0x649, 0x20, 0x627,
     0x644, 0x622, 0x646, 0x3A, 0xA, 0x20, 0x20, 0x20, 0x20, 0x20, 0x20, 0x20,
     0x20]"

text \<open>Continuation prompt, after the transcript: continue from the last decision, offer 2-4 new choices, one of which may end the story (then set isEnding to true), and classify the scene as neutral, positive, negative or suspense.\<close>

definition continuationTail :: jsstring where
  "continuationTail =
    [0xA, 0x20, 0x20, 0x20, 0x20, 0x20, 0x20, 0x20, 0x20, 0xA, 0x20, 0x20,
     0x20, 0x20, 0x20, 0x20, 0x20, 0x20, 0x628, 0x646, 0x627, 0x621, 0x64B, 0x20,
     0x639, 0x644, 0x649, 0x20, 0x627, 0x644, 0x642, 0x631, 0x627, 0x631, 0x20, 0x627,
     0x644, 0x623, 0x62E, 0x64A, 0x631, 0x60C, 0x20, 0x623, 0x643, 0x645, 0x644, 0x20,
     0x627, 0x644, 0x642, 0x635, 0x629, 0x20, 0x628, 0x62C, 0x632, 0x621, 0x20, 0x62C,
     0x62F, 0x64A, 0x62F, 0x20, 0x648, 0x645, 0x62B, 0x64A, 0x631, 0x20, 0x628, 0x627,
     0x644, 0x644, 0x63A, 0x629, 0x20, 0x627, 0x644, 0x639, 0x631, 0x628, 0x64A, 0x629,
     0x2E, 0x20, 0x635, 0x641, 0x20, 0x645, 0x627, 0x20, 0x64A, 0x62D, 0x62F, 0x62B,
     0x20, 0x628, 0x639, 0x62F, 0x20, 0x630, 0x644, 0x643, 0x60C, 0x20, 0x62B, 0x645,
     0x20, 0x642, 0x62F, 0x645, 0x20, 0x32, 0x2D, 0x34, 0x20, 0x62E, 0x64A, 0x627,
     0x631, 0x627, 0x62A, 0x20, 0x62C, 0x62F, 0x64A, 0x62F, 0x629, 0x20, 0x644, 0x644,
     0x627, 0x639, 0x628, 0x2E, 0x20, 0x642, 0x62F, 0x20, 0x64A, 0x624, 0x62F, 0x64A,
     0x20, 0x623, 0x62D, 0x62F, 0x20, 0x627, 0x644, 0x62E, 0x64A, 0x627, 0x631, 0x627,
     0x62A, 0x20, 0x625, 0x644, 0x649, 0x20, 0x646, 0x647, 0x627, 0x64A, 0x629, 0x20,
     0x627, 0x644, 0x642, 0x635, 0x629, 0x2E, 0x20, 0x625, 0x630, 0x627, 0x20, 0x643,
     0x627, 0x646, 0x20, 0x647, 0x630, 0x627, 0x20, 0x647, 0x648, 0x20, 0x627, 0x644,
     0x645, 0x634, 0x647, 0x62F, 0x20, 0x627, 0x644, 0x623, 0x62E, 0x64A, 0x631, 0x60C,
     0x20, 0x641, 0x636, 0x639, 0x20, 0x639, 0x644, 0x627, 0x645, 0x629, 0x20, 0x27,
     0x69, 0x73, 0x45, 0x6E, 0x64, 0x69, 0x6E, 0x67, 0x27, 0x20, 0x639, 0x644,
     0x649, 0x20, 0x27, 0x74, 0x72, 0x75, 0x65, 0x27, 0x2E, 0x20, 0x642, 0x645,
     0x20, 0x628, 0x62A, 0x635, 0x646, 0x64A, 0x641, 0x20, 0x627, 0x644, 0x645, 0x634,
     0x647, 0x62F, 0x20, 0x627, 0x644, 0x62C, 0x62F, 0x64A, 0x62F, 0x20, 0x643, 0x640,
     0x20, 0x27, 0x6E, 0x65, 0x75, 0x74, 0x72, 0x61, 0x6C, 0x27, 0x2C, 0x20,
     0x27, 0x70, 0x6F, 0x73, 0x69, 0x74, 0x69, 0x76, 0x65, 0x27, 0x2C, 0x20,
     0x27, 0x6E, 0x65, 0x67, 0x61, 0x74, 0x69, 0x76, 0x65, 0x27, 0x2C, 0x20,
     0x623, 0x648, 0x20, 0x27, 0x73, 0x75, 0x73, 0x70, 0x65, 0x6E, 0x73, 0x65,
     0x27, 0x2E]"

text \<open>The narrative of the fallback scene: an unexpected error in the course of events, an outside force tampering with the case file, "do you want to start a new investigation?".\<close>

definition fallbackNarrative :: jsstring where
  "fallbackNarrative =
    [0x62D, 0x62F, 0x62B, 0x20, 0x62E, 0x637, 0x623, 0x20, 0x63A, 0x64A, 0x631, 0x20,
     0x645, 0x62A, 0x648, 0x642, 0x639, 0x20, 0x641, 0x64A, 0x20, 0x633, 0x64A, 0x631,
     0x20, 0x627, 0x644, 0x623, 0x62D, 0x62F, 0x627, 0x62B, 0x2E, 0x20, 0x64A, 0x628,
     0x62F, 0x648, 0x20, 0x623, 0x646, 0x20, 0x647, 0x646, 0x627, 0x643, 0x20, 0x642,
     0x648, 0x629, 0x20, 0x62E, 0x627, 0x631, 0x62C, 0x64A, 0x629, 0x20, 0x62A, 0x62A,
     0x644, 0x627, 0x639, 0x628, 0x20, 0x628, 0x645, 0x644, 0x641, 0x20, 0x627, 0x644,
     0x642, 0x636, 0x64A, 0x629, 0x2E, 0x20, 0x647, 0x644, 0x20, 0x62A, 0x631, 0x64A,
     0x62F, 0x20, 0x628, 0x62F, 0x621, 0x20, 0x62A, 0x62D, 0x642, 0x64A, 0x642, 0x20,
     0x62C, 0x62F, 0x64A, 0x62F, 0x61F]"

text \<open>The only choice of the fallback scene: Arabic for "Start over".\<close>

definition startOverChoice :: jsstring where
  "startOverChoice =
    [0x627, 0x628, 0x62F, 0x623, 0x20, 0x645, 0x646, 0x20, 0x62C, 0x62F, 0x64A, 0x62F]"

text \<open>Hint prompt, up to the history: the role of a wise and mysterious guide, and the heading "Summary of the story so far:".\<close>

definition hintPromptIntro :: jsstring where
  "hintPromptIntro =
    [0x623, 0x646, 0x62A, 0x20, 0x645, 0x631, 0x634, 0x62F, 0x20, 0x62D, 0x643, 0x64A,
     0x645, 0x20, 0x648, 0x63A, 0x627, 0x645, 0x636, 0x20, 0x641, 0x64A, 0x20, 0x644,
     0x639, 0x628, 0x629, 0x20, 0x62A, 0x62D, 0x642, 0x64A, 0x642, 0x20, 0x62A, 0x641,
     0x627, 0x639, 0x644, 0x64A, 0x629, 0x2E, 0x20, 0x627, 0x644, 0x644, 0x627, 0x639,
     0x628, 0x20, 0x64A, 0x648, 0x627, 0x62C, 0x647, 0x20, 0x627, 0x644, 0x622, 0x646,
     0x20, 0x62E, 0x64A, 0x627, 0x631, 0x64B, 0x627, 0x20, 0x635, 0x639, 0x628, 0x64B,
     0x627, 0x2E, 0xA, 0x20, 0x20, 0x20, 0x20, 0x20, 0x20, 0x20, 0x20, 0xA,
     0x20, 0x20, 0x20, 0x20, 0x20, 0x20, 0x20, 0x20, 0x645, 0x644, 0x62E, 0x635,
     0x20, 0x627, 0x644, 0x642, 0x635, 0x629, 0x20, 0x62D, 0x62A, 0x649, 0x20, 0x627,
     0x644, 0x622, 0x646, 0x3A, 0xA, 0x20, 0x20, 0x20, 0x20, 0x20, 0x20, 0x20,
     0x20]"

text \<open>Hint prompt, between the history and the narrative: the heading "The current scene the player sees:" and an opening double quote.\<close>

definition hintPromptBeforeScene :: jsstring where
  "hintPromptBeforeScene =
    [0xA, 0xA, 0x20, 0x20, 0x20, 0x20, 0x20, 0x20, 0x20, 0x20, 0x627, 0x644,
     0x645, 0x634, 0x647, 0x62F, 0x20, 0x627, 0x644, 0x62D, 0x627, 0x644, 0x64A, 0x20,
     0x627, 0x644, 0x630, 0x64A, 0x20, 0x64A, 0x631, 0x627, 0x647, 0x20, 0x627, 0x644,
     0x644, 0x627, 0x639, 0x628, 0x3A, 0xA, 0x20, 0x20, 0x20, 0x20, 0x20, 0x20,
     0x20, 0x20, 0x22]"

text \<open>Hint prompt, between the narrative and the choices: the closing double quote, the heading "The choices available to the player:" and the first bullet.\<close>

definition hintPromptBeforeChoices :: jsstring where
  "hintPromptBeforeChoices =
    [0x22, 0xA, 0xA, 0x20, 0x20, 0x20, 0x20, 0x20, 0x20, 0x20, 0x20, 0x627,
     0x644, 0x62E, 0x64A, 0x627, 0x631, 0x627, 0x62A, 0x20, 0x627, 0x644, 0x645, 0x62A,
     0x627, 0x62D, 0x629, 0x20, 0x644, 0x644, 0x627, 0x639, 0x628, 0x3A, 0xA, 0x20,
     0x20, 0x20, 0x20, 0x20, 0x20, 0x20, 0x20, 0x2D, 0x20]"

text \<open>Hint prompt, after the choices: give one short, cryptic hint in Arabic, never reveal the right answer or the direct outcome of a choice; two sample hints.\<close>

definition hintPromptTail :: jsstring where
  "hintPromptTail =
    [0xA, 0xA, 0x20, 0x20, 0x20, 0x20, 0x20, 0x20, 0x20, 0x20, 0x645, 0x647,
     0x645, 0x62A, 0x643, 0x20, 0x647, 0x64A, 0x20, 0x62A, 0x642, 0x62F, 0x64A, 0x645,
     0x20, 0x62A, 0x644, 0x645, 0x64A, 0x62D, 0x20, 0x648, 0x627, 0x62D, 0x62F, 0x20,
     0x642, 0x635, 0x64A, 0x631, 0x20, 0x648, 0x63A, 0x627, 0x645, 0x636, 0x20, 0x628,
     0x627, 0x644, 0x644, 0x63A, 0x629, 0x20, 0x627, 0x644, 0x639, 0x631, 0x628, 0x64A,
     0x629, 0x20, 0x644, 0x645, 0x633, 0x627, 0x639, 0x62F, 0x629, 0x20, 0x627, 0x644,
     0x644, 0x627, 0x639, 0x628, 0x2E, 0x20, 0x2A, 0x2A, 0x644, 0x627, 0x20, 0x62A,
     0x643, 0x634, 0x641, 0x20, 0x639, 0x646, 0x20, 0x627, 0x644, 0x625, 0x62C, 0x627,
     0x628, 0x629, 0x20, 0x627, 0x644, 0x635, 0x62D, 0x64A, 0x62D, 0x629, 0x20, 0x623,
     0x648, 0x20, 0x627, 0x644, 0x646, 0x62A, 0x64A, 0x62C, 0x629, 0x20, 0x627, 0x644,
     0x645, 0x628, 0x627, 0x634, 0x631, 0x629, 0x20, 0x644, 0x623, 0x64A, 0x20, 0x62E,
     0x64A, 0x627, 0x631, 0x2E, 0x2A, 0x2A, 0x20, 0x64A, 0x62C, 0x628, 0x20, 0x623,
     0x646, 0x20, 0x64A, 0x643, 0x648, 0x646, 0x20, 0x627, 0x644, 0x62A, 0x644, 0x645,
     0x64A, 0x62D, 0x20, 0x62F, 0x642, 0x64A, 0x642, 0x64B, 0x627, 0x20, 0x648, 0x645,
     0x62B, 0x64A, 0x631, 0x64B, 0x627, 0x20, 0x644, 0x644, 0x62A, 0x641, 0x643, 0x64A,
     0x631, 0x2E, 0xA, 0x20, 0x20, 0x20, 0x20, 0x20, 0x20, 0x20, 0x20, 0x623,
     0x645, 0x62B, 0x644, 0x629, 0x20, 0x639, 0x644, 0x649, 0x20, 0x627, 0x644, 0x62A,
     0x644, 0x645, 0x64A, 0x62D, 0x627, 0x62A, 0x20, 0x627, 0x644, 0x62C, 0x64A, 0x62F,
     0x629, 0x3A, 0x20, 0x22, 0x623, 0x62D, 0x64A, 0x627, 0x646, 0x64B, 0x627, 0x60C,
     0x20, 0x627, 0x644, 0x63A, 0x631, 0x641, 0x20, 0x627, 0x644, 0x647, 0x627, 0x62F,
     0x626, 0x629, 0x20, 0x62A, 0x62D, 0x645, 0x644, 0x20, 0x627, 0x644, 0x623, 0x633,
     0x631, 0x627, 0x631, 0x20, 0x627, 0x644, 0x623, 0x639, 0x644, 0x649, 0x20, 0x635,
     0x648, 0x62A, 0x64B, 0x627, 0x2E, 0x22, 0x20, 0x623, 0x648, 0x20, 0x22, 0x627,
     0x644, 0x646, 0x647, 0x62C, 0x20, 0x627, 0x644, 0x645, 0x628, 0x627, 0x634, 0x631,
     0x20, 0x644, 0x64A, 0x633, 0x20, 0x62F, 0x627, 0x626, 0x645, 0x64B, 0x627, 0x20,
     0x623, 0x633, 0x631, 0x639, 0x20, 0x637, 0x631, 0x64A, 0x642, 0x20, 0x644, 0x644,
     0x62D, 0x642, 0x64A, 0x642, 0x629, 0x2E, 0x22]"

text \<open>What \<^verbatim>\<open>generateHint\<close> returns from its catch block: Arabic for "No hints can be drawn at this time. Rely on your intuition."\<close>

definition noHintMessage :: jsstring where
  "noHintMessage =
    [0x644, 0x627, 0x20, 0x64A, 0x645, 0x643, 0x646, 0x20, 0x627, 0x633, 0x62A, 0x62E,
     0x644, 0x627, 0x635, 0x20, 0x623, 0x64A, 0x20, 0x62A, 0x644, 0x645, 0x64A, 0x62D,
     0x627, 0x62A, 0x20, 0x641, 0x64A, 0x20, 0x647, 0x630, 0x627, 0x20, 0x627, 0x644,
     0x648, 0x642, 0x62A, 0x2E, 0x20, 0x627, 0x639, 0x62A, 0x645, 0x62F, 0x20, 0x639,
     0x644, 0x649, 0x20, 0x62D, 0x62F, 0x633, 0x643, 0x2E]"

text \<open>What the catch block of \<^verbatim>\<open>handleGetHint\<close> stores: Arabic for "An error occurred while fetching the hint."\<close>

definition hintFetchErrorMessage :: jsstring where
  "hintFetchErrorMessage =
    [0x62D, 0x62F, 0x62B, 0x20, 0x62E, 0x637, 0x623, 0x20, 0x623, 0x62B, 0x646, 0x627,
     0x621, 0x20, 0x62C, 0x644, 0x628, 0x20, 0x627, 0x644, 0x62A, 0x644, 0x645, 0x64A,
     0x62D, 0x2E]"

subsection \<open>The types of \<^verbatim>\<open>types.ts\<close> and of the history\<close>

text \<open>
  A turn of the history is the object \<^verbatim>\<open>{ scene: string, choice: string }\<close>. Both
  \<open>Turn\<close> and \<open>StoryScene\<close> have a field \<open>scene\<close>; the turn's is written \<open>Turn.scene\<close>.
\<close>

record Turn =
  scene :: jsstring
  choice :: jsstring

datatype SceneType = Neutral | Positive | Negative | Suspense

record StoryScene =
  scene :: jsstring
  choices :: "jsstring list"
  isEnding :: bool
  sceneType :: "SceneType option"

datatype GameState = Start | Playing | End

subsection \<open>Values that \<^verbatim>\<open>JSON.parse\<close> returns\<close>

text \<open>
  A number is a double; only whether it is zero is ever observed (truthiness), so a finite
  double is given by its rational value (both zeros are \<open>Finite 0\<close>) and the two
  infinities, which \<^verbatim>\<open>JSON.parse\<close> returns on overflow, stand apart. An object is the
  list of its own properties, which has no duplicate name after parsing.
\<close>

datatype jsnumber = Finite rat | PosInfinity | NegInfinity

datatype json =
    JNull
  | JBool bool
  | JNum jsnumber
  | JStr jsstring
  | JArr "json list"
  | JObj "(jsstring \<times> json) list"

datatype error = TransportError | TypeError | SyntaxError | InvalidStructure

text \<open>The truthiness of a value, as \<^verbatim>\<open>&&\<close> tests it.\<close>

fun truthy :: "json \<Rightarrow> bool" where
  "truthy JNull = False"
| "truthy (JBool b) = b"
| "truthy (JNum n) = (n \<noteq> Finite 0)"
| "truthy (JStr s) = (s \<noteq> [])"
| "truthy (JArr xs) = True"
| "truthy (JObj kvs) = True"

text \<open>A property that is absent reads as \<^verbatim>\<open>undefined\<close>, here \<open>None\<close>, which is falsy.\<close>

fun truthyProp :: "json option \<Rightarrow> bool" where
  "truthyProp None = False"
| "truthyProp (Some v) = truthy v"

text \<open>
  Reading a property \<open>k\<close> of a parsed value, for the names the client reads
  (\<^verbatim>\<open>scene\<close>, \<^verbatim>\<open>choices\<close>, \<^verbatim>\<open>isEnding\<close>, \<^verbatim>\<open>sceneType\<close>): none of them is a
  property of a string, a number, a boolean or an array, nor of a prototype. Reading a
  property of \<^verbatim>\<open>null\<close> throws a \<^verbatim>\<open>TypeError\<close>.
\<close>

fun getProp :: "json \<Rightarrow> jsstring \<Rightarrow> error + json option" where
  "getProp JNull k = Inl TypeError"
| "getProp (JObj kvs) k = Inr (map_of kvs k)"
| "getProp (JBool b) k = Inr None"
| "getProp (JNum n) k = Inr None"
| "getProp (JStr s) k = Inr None"
| "getProp (JArr xs) k = Inr None"

subsection \<open>The generation client\<close>

text \<open>
  The external service: \<^verbatim>\<open>ai.models.generateContent\<close> is called with the prompt and,
  for a scene, with the response schema (the flag); its promise is rejected, or resolves to
  a response whose \<^verbatim>\<open>text\<close> is a string or \<^verbatim>\<open>undefined\<close>. \<^verbatim>\<open>JSON.parse\<close>
  is a parameter too: \<open>None\<close> is its \<^verbatim>\<open>SyntaxError\<close>.
\<close>

datatype api_response = Rejected | Resolved "jsstring option"

type_synonym generateContent = "jsstring \<Rightarrow> bool \<Rightarrow> api_response"

type_synonym jsonParse = "jsstring \<Rightarrow> json option"

definition formatTurn :: "nat \<Rightarrow> Turn \<Rightarrow> jsstring" where
  "formatTurn index turn =
     sceneLabel @ showNat (index + 1) @ ascii '': '' @ Turn.scene turn
       @ choiceLabel @ choice turn"

definition formatStoryHistory :: "Turn list \<Rightarrow> jsstring" where
  "formatStoryHistory history =
     (if length history = 0 then noHistoryText
      else join [0xA, 0xA]
             (map (\<lambda>(index, turn). formatTurn index turn) (enumerate 0 history)))"

definition openingPrompt :: jsstring where
  "openingPrompt =
     writerRole @ openingSetup @ threeChoicesInstruction @ openingMiddle
       @ doNotEndInstruction"

definition continuationPrompt :: "Turn list \<Rightarrow> jsstring" where
  "continuationPrompt history =
     writerRole @ continuationIntro @ formatStoryHistory history @ continuationTail"

text \<open>The prompt \<^verbatim>\<open>generateStoryScene\<close> sends: \<^verbatim>\<open>isFirstScene ? ... : ...\<close>.\<close>

definition scenePrompt :: "Turn list \<Rightarrow> jsstring" where
  "scenePrompt history =
     (if length history = 0 then openingPrompt else continuationPrompt history)"

text \<open>
  The check of line 68:
  \<^verbatim>\<open>parsedJson.scene && parsedJson.choices && typeof parsedJson.isEnding !== 'undefined'\<close>,
  evaluated left to right with the short circuit of \<^verbatim>\<open>&&\<close>.
\<close>

definition validStructure :: "json \<Rightarrow> error + bool" where
  "validStructure parsedJson =
     (case getProp parsedJson (ascii ''scene'') of
        Inl e \<Rightarrow> Inl e
      | Inr sc \<Rightarrow>
          if \<not> truthyProp sc then Inr False
          else (case getProp parsedJson (ascii ''choices'') of
                  Inl e \<Rightarrow> Inl e
                | Inr ch \<Rightarrow>
                    if \<not> truthyProp ch then Inr False
                    else (case getProp parsedJson (ascii ''isEnding'') of
                            Inl e \<Rightarrow> Inl e
                          | Inr en \<Rightarrow> Inr (en \<noteq> None))))"

text \<open>The object literal of the catch block (lines 77 to 82).\<close>

definition fallbackScene :: json where
  "fallbackScene =
     JObj [(ascii ''scene'', JStr fallbackNarrative),
           (ascii ''choices'', JArr [JStr startOverChoice]),
           (ascii ''isEnding'', JBool True),
           (ascii ''sceneType'', JStr (ascii ''negative''))]"

text \<open>The body of the \<^verbatim>\<open>try\<close> block of \<^verbatim>\<open>generateStoryScene\<close>: \<open>Inl\<close> is a throw.\<close>

definition generateStoryScene_try ::
    "jsonParse \<Rightarrow> generateContent \<Rightarrow> Turn list \<Rightarrow> error + json" where
  "generateStoryScene_try parse ai history =
     (case ai (scenePrompt history) True of
        Rejected \<Rightarrow> Inl TransportError
      | Resolved None \<Rightarrow> Inl TypeError
      | Resolved (Some text) \<Rightarrow>
          (case parse (trim text) of
             None \<Rightarrow> Inl SyntaxError
           | Some parsedJson \<Rightarrow>
               (case validStructure parsedJson of
                  Inl e \<Rightarrow> Inl e
                | Inr ok \<Rightarrow> if ok then Inr parsedJson else Inl InvalidStructure)))"

text \<open>\<^verbatim>\<open>generateStoryScene\<close>: the catch block turns every throw into the fallback.\<close>

definition generateStoryScene :: "jsonParse \<Rightarrow> generateContent \<Rightarrow> Turn list \<Rightarrow> json" where
  "generateStoryScene parse ai history =
     (case generateStoryScene_try parse ai history of
        Inr newScene \<Rightarrow> newScene
      | Inl e \<Rightarrow> fallbackScene)"

text \<open>
  The cast \<^verbatim>\<open>parsedJson as StoryScene\<close> checks nothing at run time. It is sound for
  the values that have the shape of the interface \<^verbatim>\<open>StoryScene\<close>, which
  \<open>asStoryScene\<close> reads as a record; on every other value it is \<open>None\<close>.
\<close>

fun asStrings :: "json list \<Rightarrow> jsstring list option" where
  "asStrings [] = Some []"
| "asStrings (JStr s # vs) = (case asStrings vs of None \<Rightarrow> None | Some ss \<Rightarrow> Some (s # ss))"
| "asStrings (v # vs) = None"

definition asSceneType :: "json option \<Rightarrow> SceneType option option" where
  "asSceneType v =
     (case v of
        None \<Rightarrow> Some None
      | Some (JStr s) \<Rightarrow>
          if s = ascii ''neutral'' then Some (Some Neutral)
          else if s = ascii ''positive'' then Some (Some Positive)
          else if s = ascii ''negative'' then Some (Some Negative)
          else if s = ascii ''suspense'' then Some (Some Suspense)
          else None
      | Some other \<Rightarrow> None)"

definition asStoryScene :: "json \<Rightarrow> StoryScene option" where
  "asStoryScene v =
     (case v of
        JObj kvs \<Rightarrow>
          (case (map_of kvs (ascii ''scene''), map_of kvs (ascii ''choices''),
                 map_of kvs (ascii ''isEnding'')) of
             (Some (JStr sc), Some (JArr cs), Some (JBool en)) \<Rightarrow>
               (case (asStrings cs, asSceneType (map_of kvs (ascii ''sceneType''))) of
                  (Some ss, Some ty) \<Rightarrow>
                    Some \<lparr>scene = sc, choices = ss, isEnding = en, sceneType = ty\<rparr>
                | other \<Rightarrow> None)
           | other \<Rightarrow> None)
      | other \<Rightarrow> None)"

text \<open>
  The prompt of \<^verbatim>\<open>generateHint\<close>; the choices are joined with a line feed, a hyphen
  and a space.
\<close>

definition hintPrompt :: "Turn list \<Rightarrow> StoryScene \<Rightarrow> jsstring" where
  "hintPrompt history currentScene =
     hintPromptIntro @ formatStoryHistory history @ hintPromptBeforeScene
       @ scene currentScene @ hintPromptBeforeChoices
       @ join (0xA # ascii ''- '') (choices currentScene) @ hintPromptTail"

definition generateHint_try :: "generateContent \<Rightarrow> Turn list \<Rightarrow> StoryScene \<Rightarrow> error + jsstring" where
  "generateHint_try ai history currentScene =
     (case ai (hintPrompt history currentScene) False of
        Rejected \<Rightarrow> Inl TransportError
      | Resolved None \<Rightarrow> Inl TypeError
      | Resolved (Some text) \<Rightarrow> Inr (trim text))"

definition generateHint :: "generateContent \<Rightarrow> Turn list \<Rightarrow> StoryScene \<Rightarrow> jsstring" where
  "generateHint ai history currentScene =
     (case generateHint_try ai history currentScene of
        Inr newHint \<Rightarrow> newHint
      | Inl e \<Rightarrow> noHintMessage)"

subsection \<open>The game state of \<^verbatim>\<open>App\<close>\<close>

text \<open>
  The state variables of the component that the handlers below read or write. The
  settings panel and the two volumes are written by no handler of the game and are left
  out; the audio elements appear as the effects that play or stop them.
\<close>

record App =
  gameState :: GameState
  currentScene :: "StoryScene option"
  storyHistory :: "Turn list"
  isLoading :: bool
  hint :: "jsstring option"
  isHintLoading :: bool
  isHintUsed :: bool

text \<open>The state of the first render: the arguments of the \<^verbatim>\<open>useState\<close> calls.\<close>

definition initialApp :: App where
  "initialApp =
     \<lparr>gameState = Start, currentScene = None, storyHistory = [], isLoading = False,
      hint = None, isHintLoading = False, isHintUsed = False\<rparr>"

datatype sound =
  ChoiceSound | TransitionSound | HintSound | PositiveOutcomeSound | NegativeOutcomeSound

text \<open>
  What a handler starts besides writing the state: audio, and the two calls of the
  generation client with their arguments.
\<close>

datatype effect =
    PlayBgMusic
  | StopBgMusic
  | PlaySound sound
  | SceneRequest "Turn list"
  | HintRequest "Turn list" StoryScene

text \<open>The \<^verbatim>\<open>switch\<close> on \<^verbatim>\<open>newScene.sceneType\<close> in \<^verbatim>\<open>fetchScene\<close>.\<close>

fun sceneSound :: "SceneType option \<Rightarrow> sound" where
  "sceneSound (Some Positive) = PositiveOutcomeSound"
| "sceneSound (Some Negative) = NegativeOutcomeSound"
| "sceneSound (Some Suspense) = NegativeOutcomeSound"
| "sceneSound (Some Neutral) = TransitionSound"
| "sceneSound None = TransitionSound"

text \<open>
  \<^verbatim>\<open>fetchScene\<close> up to its \<^verbatim>\<open>await\<close>: four state writes, then the call of
  \<^verbatim>\<open>generateStoryScene(history)\<close>.
\<close>

definition fetchScene_begin :: "Turn list \<Rightarrow> App \<Rightarrow> App \<times> effect list" where
  "fetchScene_begin history s =
     (s\<lparr>isLoading := True, currentScene := None, hint := None, isHintUsed := False\<rparr>,
      [SceneRequest history])"

text \<open>
  \<^verbatim>\<open>fetchScene\<close> after its \<^verbatim>\<open>await\<close>: \<open>Inr newScene\<close> when the promise is
  fulfilled, \<open>Inl e\<close> when the \<^verbatim>\<open>try\<close> block throws (the \<^verbatim>\<open>catch\<close> only logs);
  \<^verbatim>\<open>finally\<close> clears the loading flag on both paths.
\<close>

definition fetchScene_settled :: "error + StoryScene \<Rightarrow> App \<Rightarrow> App \<times> effect list" where
  "fetchScene_settled r s =
     (case r of
        Inr newScene \<Rightarrow>
          if isEnding newScene
          then (s\<lparr>currentScene := Some newScene, gameState := End, isLoading := False\<rparr>,
                [PlaySound (sceneSound (sceneType newScene)), StopBgMusic])
          else (s\<lparr>currentScene := Some newScene, gameState := Playing, isLoading := False\<rparr>,
                [PlaySound (sceneSound (sceneType newScene))])
      | Inl e \<Rightarrow> (s\<lparr>isLoading := False\<rparr>, []))"

definition handleStartGame :: "App \<Rightarrow> App \<times> effect list" where
  "handleStartGame s =
     (let (s', fx) = fetchScene_begin [] (s\<lparr>storyHistory := []\<rparr>)
      in (s', PlayBgMusic # fx))"

definition handleResetGame :: "App \<Rightarrow> App \<times> effect list" where
  "handleResetGame s =
     (s\<lparr>gameState := Start, currentScene := None, storyHistory := [], hint := None,
        isHintUsed := False\<rparr>,
      [StopBgMusic])"

text \<open>\<^verbatim>\<open>handleChoice\<close>: the guard is \<^verbatim>\<open>if (!currentScene || isLoading) return;\<close>.\<close>

definition handleChoice :: "jsstring \<Rightarrow> App \<Rightarrow> App \<times> effect list" where
  "handleChoice c s =
     (case currentScene s of
        None \<Rightarrow> (s, [])
      | Some cur \<Rightarrow>
          if isLoading s then (s, [])
          else
            (let newHistory = storyHistory s @ [\<lparr>Turn.scene = scene cur, choice = c\<rparr>];
                 (s', fx) = fetchScene_begin newHistory (s\<lparr>storyHistory := newHistory\<rparr>)
             in (s', PlaySound ChoiceSound # fx)))"

text \<open>
  \<^verbatim>\<open>handleGetHint\<close> up to its \<^verbatim>\<open>await\<close>: the guard is
  \<^verbatim>\<open>if (!currentScene || isHintUsed || isHintLoading) return;\<close>, and the request
  carries the history and the scene of the moment.
\<close>

definition handleGetHint :: "App \<Rightarrow> App \<times> effect list" where
  "handleGetHint s =
     (case currentScene s of
        None \<Rightarrow> (s, [])
      | Some cur \<Rightarrow>
          if isHintUsed s \<or> isHintLoading s then (s, [])
          else (s\<lparr>isHintLoading := True, isHintUsed := True\<rparr>,
                [PlaySound HintSound, HintRequest (storyHistory s) cur]))"

text \<open>
  \<^verbatim>\<open>handleGetHint\<close> after its \<^verbatim>\<open>await\<close>: the hint is stored, or the message of
  the \<^verbatim>\<open>catch\<close> block when the awaited promise is rejected; \<^verbatim>\<open>finally\<close> clears
  the flag of the pending hint.
\<close>

definition handleGetHint_settled :: "error + jsstring \<Rightarrow> App \<Rightarrow> App \<times> effect list" where
  "handleGetHint_settled r s =
     (case r of
        Inr newHint \<Rightarrow> (s\<lparr>hint := Some newHint, isHintLoading := False\<rparr>, [])
      | Inl e \<Rightarrow> (s\<lparr>hint := Some hintFetchErrorMessage, isHintLoading := False\<rparr>, []))"

text \<open>
  The whole hint request against a service \<open>ai\<close>: \<^verbatim>\<open>generateHint\<close> returns a string on
  every path, so the promise that \<^verbatim>\<open>handleGetHint\<close> awaits is always fulfilled.
\<close>

definition handleGetHint_run :: "generateContent \<Rightarrow> App \<Rightarrow> App" where
  "handleGetHint_run ai s =
     (case snd (handleGetHint s) of
        [PlaySound HintSound, HintRequest history cur] \<Rightarrow>
          fst (handleGetHint_settled (Inr (generateHint ai history cur)) (fst (handleGetHint s)))
      | other \<Rightarrow> fst (handleGetHint s))"

subsection \<open>Runs of the game\<close>

text \<open>
  What can happen to the component: the four player actions, and the settling of a pending
  scene or hint request with its outcome. Every handler reads the state of the latest
  render, which is the state the previous event left.
\<close>

datatype event =
    StartGame
  | ResetGame
  | ChooseOption jsstring
  | GetHint
  | SceneSettled "error + StoryScene"
  | HintSettled "error + jsstring"

fun step :: "event \<Rightarrow> App \<Rightarrow> App \<times> effect list" where
  "step StartGame s = handleStartGame s"
| "step ResetGame s = handleResetGame s"
| "step (ChooseOption c) s = handleChoice c s"
| "step GetHint s = handleGetHint s"
| "step (SceneSettled r) s = fetchScene_settled r s"
| "step (HintSettled r) s = handleGetHint_settled r s"

text \<open>A run returns the last state and every effect started on the way, in order.\<close>

fun run :: "event list \<Rightarrow> App \<Rightarrow> App \<times> effect list" where
  "run [] s = (s, [])"
| "run (e # es) s =
     (let (s1, fx1) = step e s; (s2, fx2) = run es s1 in (s2, fx1 @ fx2))"

fun isSceneRequest :: "effect \<Rightarrow> bool" where
  "isSceneRequest (SceneRequest history) = True"
| "isSceneRequest other = False"


fun isSceneSettled :: "event \<Rightarrow> bool" where
  "isSceneSettled (SceneSettled r) = True"
| "isSceneSettled other = False"


subsection \<open>Notions of the specification and sample inputs\<close>

text \<open>
  The validator as the specification words it: the narrative text, the choices array and
  the ending boolean are present and correctly typed.
\<close>

definition specWellTyped :: "json \<Rightarrow> bool" where
  "specWellTyped v =
     (case v of
        JObj kvs \<Rightarrow>
          (case map_of kvs (ascii ''scene'') of Some (JStr s) \<Rightarrow> True | other \<Rightarrow> False)
          \<and> (case map_of kvs (ascii ''choices'') of Some (JArr cs) \<Rightarrow> True | other \<Rightarrow> False)
          \<and> (case map_of kvs (ascii ''isEnding'') of Some (JBool b) \<Rightarrow> True | other \<Rightarrow> False)
      | other \<Rightarrow> False)"

text \<open>
  What the check of line 68 accepts, in closed form: an object whose \<^verbatim>\<open>scene\<close> and
  \<^verbatim>\<open>choices\<close> are truthy and whose \<^verbatim>\<open>isEnding\<close> is present. It is related to
  \<open>validStructure\<close> by lemma \<open>validStructure_iff\<close>.
\<close>

definition acceptedStructure :: "json \<Rightarrow> bool" where
  "acceptedStructure v =
     (case v of
        JObj kvs \<Rightarrow>
          truthyProp (map_of kvs (ascii ''scene'')) \<and> truthyProp (map_of kvs (ascii ''choices''))
          \<and> map_of kvs (ascii ''isEnding'') \<noteq> None
      | other \<Rightarrow> False)"

text \<open>
  Two parsed responses: \<^verbatim>\<open>{scene: true, choices: "x", isEnding: null}\<close>, where no
  field has its type, and \<^verbatim>\<open>{scene: "", choices: ["A", "B"], isEnding: false}\<close>,
  where every field has its type and the narrative is the empty string.
\<close>

definition looselyTypedResponse :: json where
  "looselyTypedResponse =
     JObj [(ascii ''scene'', JBool True), (ascii ''choices'', JStr (ascii ''x'')),
           (ascii ''isEnding'', JNull)]"

definition emptyNarrativeResponse :: json where
  "emptyNarrativeResponse =
     JObj [(ascii ''scene'', JStr []),
           (ascii ''choices'', JArr [JStr (ascii ''A''), JStr (ascii ''B'')]),
           (ascii ''isEnding'', JBool False)]"

text \<open>
  A service that answers every request with the same text, one that rejects every request,
  and a parser that returns the same value for every text.
\<close>

definition serviceAnswers :: "jsstring \<Rightarrow> generateContent" where
  "serviceAnswers text prompt structured = Resolved (Some text)"

definition serviceRejects :: generateContent where
  "serviceRejects prompt structured = Rejected"

definition parsesTo :: "json \<Rightarrow> jsonParse" where
  "parsesTo v text = Some v"





text \<open>
  Two scenes of the scenarios of the specification: a first scene that does not end the
  story, and an ending scene.
\<close>

definition sampleScene :: StoryScene where
  "sampleScene =
     \<lparr>scene = ascii ''X'', choices = [ascii ''A'', ascii ''B'', ascii ''C''], isEnding = False,
      sceneType = None\<rparr>"

definition endingScene :: StoryScene where
  "endingScene =
     \<lparr>scene = ascii ''Y'', choices = [ascii ''Z''], isEnding = True, sceneType = None\<rparr>"

text \<open>
  Three states reached from the first render: a game in progress on the first scene, a
  game whose first scene was an ending, and the state after the start button was pressed
  twice and one of the two scene requests settled.
\<close>

definition playingApp :: App where
  "playingApp = fst (run [StartGame, SceneSettled (Inr sampleScene)] initialApp)"

definition endedApp :: App where
  "endedApp = fst (run [StartGame, SceneSettled (Inr endingScene)] initialApp)"

definition doubleStartApp :: App where
  "doubleStartApp = fst (run [StartGame, StartGame, SceneSettled (Inr sampleScene)] initialApp)"





section \<open>Properties\<close>

subsection \<open>The generation client never throws\<close>

lemma generateStoryScene_try_cases:
  "generateStoryScene_try parse ai history =
     (case ai (scenePrompt history) True of
        Rejected \<Rightarrow> Inl TransportError
      | Resolved None \<Rightarrow> Inl TypeError
      | Resolved (Some text) \<Rightarrow>
          (case parse (trim text) of
             None \<Rightarrow> Inl SyntaxError
           | Some v \<Rightarrow> if validStructure v = Inr True then Inr v
               else (case validStructure v of Inl e \<Rightarrow> Inl e | Inr ok \<Rightarrow> Inl InvalidStructure)))"
  by (auto simp: generateStoryScene_try_def split: api_response.splits option.splits sum.splits)

lemma asStoryScene_fallbackScene:
  "asStoryScene fallbackScene =
     Some \<lparr>scene = fallbackNarrative, choices = [startOverChoice], isEnding = True,
           sceneType = Some Negative\<rparr>"
  by (simp add: asStoryScene_def fallbackScene_def asSceneType_def ascii_def)

text \<open>
  Claim C1. Whatever the history, when the scene request fails in transport (the promise
  of the service is rejected, or its response has no text), in parsing
  (\<^verbatim>\<open>JSON.parse\<close> throws) or in validation (the check of the structure throws or is
  false), \<^verbatim>\<open>generateStoryScene\<close> returns the fallback scene and throws nothing: its
  result is a value on every path. The fallback scene is an ending, its choices are the
  single "start over" choice, and its tone is negative.
\<close>

theorem generateStoryScene_failure_gives_fallback:
  assumes "ai (scenePrompt history) True = Rejected
     \<or> ai (scenePrompt history) True = Resolved None
     \<or> (\<exists>text. ai (scenePrompt history) True = Resolved (Some text)
          \<and> (parse (trim text) = None
              \<or> (\<exists>v. parse (trim text) = Some v \<and> validStructure v \<noteq> Inr True)))"
  shows "generateStoryScene parse ai history = fallbackScene
     \<and> getProp fallbackScene (ascii ''isEnding'') = Inr (Some (JBool True))
     \<and> getProp fallbackScene (ascii ''choices'') = Inr (Some (JArr [JStr startOverChoice]))
     \<and> getProp fallbackScene (ascii ''sceneType'') = Inr (Some (JStr (ascii ''negative'')))
     \<and> asStoryScene fallbackScene =
         Some \<lparr>scene = fallbackNarrative, choices = [startOverChoice], isEnding = True,
               sceneType = Some Negative\<rparr>"
proof -
  have "\<exists>e. generateStoryScene_try parse ai history = Inl e"
    using assms
    by (auto simp: generateStoryScene_try_cases split: sum.splits)
  then have "generateStoryScene parse ai history = fallbackScene"
    by (auto simp: generateStoryScene_def)
  moreover have "getProp fallbackScene (ascii ''isEnding'') = Inr (Some (JBool True))"
    by (simp add: fallbackScene_def ascii_def)
  moreover have "getProp fallbackScene (ascii ''choices'') = Inr (Some (JArr [JStr startOverChoice]))"
    by (simp add: fallbackScene_def ascii_def)
  moreover have "getProp fallbackScene (ascii ''sceneType'') = Inr (Some (JStr (ascii ''negative'')))"
    by (simp add: fallbackScene_def ascii_def)
  ultimately show ?thesis
    using asStoryScene_fallbackScene by simp
qed

text \<open>
  The theorem at five failing calls with an empty history: a rejected promise, a response
  without text, a text that does not parse, the parsed value \<^verbatim>\<open>null\<close>, and the
  empty object.
\<close>

theorem generateStoryScene_failure_gives_fallback_witness:
  "generateStoryScene (\<lambda>t. None) (\<lambda>p b. Rejected) [] = fallbackScene
   \<and> generateStoryScene (\<lambda>t. None) (\<lambda>p b. Resolved None) [] = fallbackScene
   \<and> generateStoryScene (\<lambda>t. None) (\<lambda>p b. Resolved (Some (ascii ''{''))) [] = fallbackScene
   \<and> generateStoryScene (\<lambda>t. Some JNull) (\<lambda>p b. Resolved (Some (ascii ''null''))) [] = fallbackScene
   \<and> generateStoryScene (\<lambda>t. Some (JObj [])) (\<lambda>p b. Resolved (Some (ascii ''{}''))) [] = fallbackScene"
proof -
  have a: "generateStoryScene (\<lambda>t. None) (\<lambda>p b. Rejected) [] = fallbackScene"
    using generateStoryScene_failure_gives_fallback [of "\<lambda>p b. Rejected" "[]" "\<lambda>t. None"]
    by simp
  have b: "generateStoryScene (\<lambda>t. None) (\<lambda>p b. Resolved None) [] = fallbackScene"
    using generateStoryScene_failure_gives_fallback [of "\<lambda>p b. Resolved None" "[]" "\<lambda>t. None"]
    by simp
  have c: "generateStoryScene (\<lambda>t. None) (\<lambda>p b. Resolved (Some (ascii ''{''))) [] = fallbackScene"
    using generateStoryScene_failure_gives_fallback
      [of "\<lambda>p b. Resolved (Some (ascii ''{''))" "[]" "\<lambda>t. None"]
    by simp
  have d: "generateStoryScene (\<lambda>t. Some JNull) (\<lambda>p b. Resolved (Some (ascii ''null''))) [] = fallbackScene"
    using generateStoryScene_failure_gives_fallback
      [of "\<lambda>p b. Resolved (Some (ascii ''null''))" "[]" "\<lambda>t. Some JNull"]
    by (simp add: validStructure_def)
  have e: "generateStoryScene (\<lambda>t. Some (JObj [])) (\<lambda>p b. Resolved (Some (ascii ''{}''))) [] = fallbackScene"
    using generateStoryScene_failure_gives_fallback
      [of "\<lambda>p b. Resolved (Some (ascii ''{}''))" "[]" "\<lambda>t. Some (JObj [])"]
    by (simp add: validStructure_def)
  from a b c d e show ?thesis by simp
qed

subsection \<open>The check of the structure\<close>

lemma validStructure_iff: "(validStructure v = Inr True) = acceptedStructure v"
  by (cases v) (auto simp: validStructure_def acceptedStructure_def)

text \<open>
  Claim C5, as stated, fails in both directions. The first response has no field of the
  right type (a boolean narrative, a string for the choices, \<^verbatim>\<open>null\<close> for the ending
  flag) and is accepted and returned as the scene. The second has every field present and
  correctly typed and is rejected for the fallback scene, because the empty narrative is
  falsy.
\<close>

theorem validator_checks_types_counterexample:
  "\<not> specWellTyped looselyTypedResponse
   \<and> generateStoryScene (parsesTo looselyTypedResponse) (serviceAnswers (ascii ''response'')) []
       = looselyTypedResponse
   \<and> looselyTypedResponse \<noteq> fallbackScene
   \<and> specWellTyped emptyNarrativeResponse
   \<and> generateStoryScene (parsesTo emptyNarrativeResponse) (serviceAnswers (ascii ''response'')) []
       = fallbackScene
   \<and> emptyNarrativeResponse \<noteq> fallbackScene"
  by (simp add: specWellTyped_def looselyTypedResponse_def emptyNarrativeResponse_def
      generateStoryScene_def generateStoryScene_try_def validStructure_def fallbackScene_def
      serviceAnswers_def parsesTo_def ascii_def)

text \<open>
  Claim C5, amended. For a response that parses to \<open>v\<close>, the validator accepts \<open>v\<close> and
  returns it as the scene if and only if \<open>v\<close> is an object whose \<^verbatim>\<open>scene\<close> and
  \<^verbatim>\<open>choices\<close> properties are truthy and whose \<^verbatim>\<open>isEnding\<close> property is
  present; no type is checked. Every other value yields the fallback scene. Every object
  whose three fields are present and correctly typed is accepted when its narrative is
  not the empty string.
\<close>

theorem validator_accepts_truthy_structure:
  assumes "ai (scenePrompt history) True = Resolved (Some text)"
    and "parse (trim text) = Some v"
  shows "(acceptedStructure v \<longrightarrow> generateStoryScene parse ai history = v)
     \<and> (\<not> acceptedStructure v \<longrightarrow> generateStoryScene parse ai history = fallbackScene)
     \<and> (generateStoryScene_try parse ai history = Inr v) = acceptedStructure v
     \<and> (specWellTyped v \<and> getProp v (ascii ''scene'') \<noteq> Inr (Some (JStr []))
          \<longrightarrow> acceptedStructure v)"
proof -
  have t: "generateStoryScene_try parse ai history =
      (if acceptedStructure v then Inr v
       else (case validStructure v of Inl e \<Rightarrow> Inl e | Inr ok \<Rightarrow> Inl InvalidStructure))"
    using assms by (simp add: generateStoryScene_try_cases validStructure_iff)
  have a: "acceptedStructure v \<longrightarrow> generateStoryScene parse ai history = v"
    by (simp add: generateStoryScene_def t)
  have b: "\<not> acceptedStructure v \<longrightarrow> generateStoryScene parse ai history = fallbackScene"
    by (auto simp: generateStoryScene_def t split: sum.splits)
  have c: "(generateStoryScene_try parse ai history = Inr v) = acceptedStructure v"
    by (auto simp: t split: sum.splits)
  have d: "specWellTyped v \<and> getProp v (ascii ''scene'') \<noteq> Inr (Some (JStr []))
          \<longrightarrow> acceptedStructure v"
    by (cases v) (auto simp: specWellTyped_def acceptedStructure_def
        split: option.splits json.splits)
  from a b c d show ?thesis by blast
qed

text \<open>The theorem at the two responses above: one accepted, one refused.\<close>

theorem validator_accepts_truthy_structure_witness:
  "generateStoryScene (parsesTo looselyTypedResponse) (serviceAnswers (ascii ''response'')) []
       = looselyTypedResponse
   \<and> generateStoryScene_try (parsesTo emptyNarrativeResponse) (serviceAnswers (ascii ''response'')) []
       \<noteq> Inr emptyNarrativeResponse"
proof -
  have a: "acceptedStructure looselyTypedResponse"
    by (simp add: acceptedStructure_def looselyTypedResponse_def ascii_def)
  have b: "\<not> acceptedStructure emptyNarrativeResponse"
    by (simp add: acceptedStructure_def emptyNarrativeResponse_def ascii_def)
  show ?thesis
    using a b
      validator_accepts_truthy_structure [of "serviceAnswers (ascii ''response'')" "[]"
        "ascii ''response''" "parsesTo looselyTypedResponse" looselyTypedResponse]
      validator_accepts_truthy_structure [of "serviceAnswers (ascii ''response'')" "[]"
        "ascii ''response''" "parsesTo emptyNarrativeResponse" emptyNarrativeResponse]
    by (simp add: serviceAnswers_def parsesTo_def)
qed

subsection \<open>The prompt of a scene request\<close>























subsection \<open>The game state machine\<close>

lemmas handler_defs =
  fetchScene_begin_def fetchScene_settled_def handleStartGame_def handleResetGame_def
  handleChoice_def handleGetHint_def handleGetHint_settled_def Let_def

lemma run_Cons_fst: "fst (run (e # es) s) = fst (run es (fst (step e s)))"
  by (simp add: split_def Let_def)

lemma run_Cons_snd: "snd (run (e # es) s) = snd (step e s) @ snd (run es (fst (step e s)))"
  by (simp add: split_def Let_def)

lemma run_Nil_fst: "fst (run [] s) = s"
  by simp

lemma run_Nil_snd: "snd (run [] s) = []"
  by simp

text \<open>
  Claim C2. When a scene request settles with a scene \<open>S\<close>, the current scene becomes
  \<open>S\<close> and the phase becomes \<open>End\<close> if \<open>S\<close> is flagged as ending, else \<open>Playing\<close>.
  Both \<^verbatim>\<open>handleStartGame\<close> and an accepted \<^verbatim>\<open>handleChoice\<close> issue such a
  request and leave the phase as it is until then; so a first scene that is an ending
  takes the phase from \<open>Start\<close> directly to \<open>End\<close>.
\<close>

theorem fetchScene_settled_sets_scene_and_phase:
  "fst (fetchScene_settled (Inr S) s) =
      s\<lparr>currentScene := Some S, gameState := (if isEnding S then End else Playing),
        isLoading := False\<rparr>
   \<and> snd (handleStartGame s) = [PlayBgMusic, SceneRequest []]
   \<and> gameState (fst (handleStartGame s)) = gameState s
   \<and> (currentScene s = Some cur \<and> \<not> isLoading s \<longrightarrow>
        snd (handleChoice c s) =
          [PlaySound ChoiceSound,
           SceneRequest (storyHistory s @ [\<lparr>Turn.scene = scene cur, choice = c\<rparr>])]
        \<and> gameState (fst (handleChoice c s)) = gameState s)
   \<and> (gameState s = Start \<and> isEnding S \<longrightarrow>
        gameState (fst (run [StartGame, SceneSettled (Inr S)] s)) = End)
   \<and> (\<not> isEnding S \<longrightarrow> gameState (fst (run [StartGame, SceneSettled (Inr S)] s)) = Playing)
   \<and> currentScene (fst (run [StartGame, SceneSettled (Inr S)] s)) = Some S"
  by (simp add: handler_defs run_Cons_fst)

text \<open>
  The theorem from the first render: an ending first scene ends the game, the sample
  scene makes it \<open>Playing\<close> with that scene as the current one.
\<close>

theorem fetchScene_settled_sets_scene_and_phase_witness:
  "gameState initialApp = Start
   \<and> gameState (fst (run [StartGame, SceneSettled (Inr endingScene)] initialApp)) = End
   \<and> gameState (fst (run [StartGame, SceneSettled (Inr sampleScene)] initialApp)) = Playing
   \<and> currentScene (fst (run [StartGame, SceneSettled (Inr sampleScene)] initialApp))
       = Some sampleScene"
proof -
  have a: "gameState initialApp = Start" by (simp add: initialApp_def)
  have b: "isEnding endingScene" by (simp add: endingScene_def)
  have c: "\<not> isEnding sampleScene" by (simp add: sampleScene_def)
  show ?thesis
    using a b c
      fetchScene_settled_sets_scene_and_phase [of endingScene initialApp]
      fetchScene_settled_sets_scene_and_phase [of sampleScene initialApp]
    by simp
qed

text \<open>
  Claim C8. From every state, \<^verbatim>\<open>handleResetGame\<close> returns the phase to \<open>Start\<close>,
  empties the history, clears the current scene, clears the hint text and the flag of the
  used hint, and issues no request.
\<close>

theorem handleResetGame_clears:
  "gameState (fst (handleResetGame s)) = Start
   \<and> storyHistory (fst (handleResetGame s)) = []
   \<and> currentScene (fst (handleResetGame s)) = None
   \<and> hint (fst (handleResetGame s)) = None
   \<and> isHintUsed (fst (handleResetGame s)) = False
   \<and> snd (handleResetGame s) = [StopBgMusic]"
  by (simp add: handleResetGame_def)

declare run.simps [simp del]
declare run_Nil_fst [simp] run_Nil_snd [simp] run_Cons_fst [simp] run_Cons_snd [simp]

lemma handleChoice_noop: "(handleChoice c s = (s, [])) = (currentScene s = None \<or> isLoading s)"
  by (auto simp: handler_defs split: option.splits)


lemma step_keeps_scene_absent:
  "currentScene s = None \<Longrightarrow> \<not> isSceneSettled e \<Longrightarrow> currentScene (fst (step e s)) = None"
  by (cases e) (simp_all add: handler_defs split: sum.splits)

lemma run_keeps_scene_absent:
  "currentScene s = None \<Longrightarrow> \<forall>e \<in> set es. \<not> isSceneSettled e
     \<Longrightarrow> currentScene (fst (run es s)) = None"
proof (induction es arbitrary: s)
  case Nil
  then show ?case by simp
next
  case (Cons e es)
  then have "currentScene (fst (step e s)) = None"
    using step_keeps_scene_absent [of s e] by simp
  with Cons show ?case by (simp add: run_Cons_fst)
qed

lemma step_Start_scene_absent:
  "(gameState s = Start \<longrightarrow> currentScene s = None)
     \<Longrightarrow> gameState (fst (step e s)) = Start \<longrightarrow> currentScene (fst (step e s)) = None"
  by (cases e) (auto simp: handler_defs split: option.splits sum.splits)

lemma run_Start_scene_absent:
  "(gameState s = Start \<longrightarrow> currentScene s = None)
     \<Longrightarrow> gameState (fst (run es s)) = Start \<longrightarrow> currentScene (fst (run es s)) = None"
proof (induction es arbitrary: s)
  case Nil
  then show ?case by simp
next
  case (Cons e es)
  from Cons.prems have "gameState (fst (step e s)) = Start \<longrightarrow> currentScene (fst (step e s)) = None"
    by (rule step_Start_scene_absent)
  then show ?case
    using Cons.IH [of "fst (step e s)"] by (simp add: run_Cons_fst)
qed

text \<open>
  Claim C3, as stated, fails in the phase \<open>End\<close>. After a first scene that is an ending
  the phase is \<open>End\<close>, the scene is displayed and nothing is loading; choosing its option
  is accepted, extends the history and issues a scene request.
\<close>

theorem chooseOption_in_Ended_counterexample:
  "gameState endedApp = End
   \<and> handleChoice (ascii ''Z'') endedApp \<noteq> (endedApp, [])
   \<and> snd (handleChoice (ascii ''Z'') endedApp) =
       [PlaySound ChoiceSound,
        SceneRequest [\<lparr>Turn.scene = ascii ''Y'', choice = ascii ''Z''\<rparr>]]
   \<and> storyHistory endedApp = []
   \<and> storyHistory (fst (handleChoice (ascii ''Z'') endedApp)) =
       [\<lparr>Turn.scene = ascii ''Y'', choice = ascii ''Z''\<rparr>]"
  by (simp add: endedApp_def initialApp_def endingScene_def handler_defs)

text \<open>
  Claim C3, amended. \<^verbatim>\<open>handleChoice\<close> leaves the whole state unchanged and issues
  nothing exactly when the current scene is absent or the loading flag is set. This is so
  in every state of phase \<open>Start\<close> that a run reaches from the first render, and from the
  moment a scene request is issued until a scene request settles, whatever else happens in
  between. The phase itself is not tested: in \<open>End\<close> with a scene displayed the choice is
  accepted.
\<close>

theorem handleChoice_guard:
  "(handleChoice c s = (s, [])) = (currentScene s = None \<or> isLoading s)
   \<and> (\<forall>es. gameState (fst (run es initialApp)) = Start \<longrightarrow>
         handleChoice c (fst (run es initialApp)) = (fst (run es initialApp), []))
   \<and> (\<forall>history es. (\<forall>e \<in> set es. \<not> isSceneSettled e) \<longrightarrow>
         handleChoice c (fst (run es (fst (fetchScene_begin history s))))
           = (fst (run es (fst (fetchScene_begin history s))), []))"
proof -
  have a: "(handleChoice c s = (s, [])) = (currentScene s = None \<or> isLoading s)"
    by (rule handleChoice_noop)
  have b: "handleChoice c (fst (run es initialApp)) = (fst (run es initialApp), [])"
    if "gameState (fst (run es initialApp)) = Start" for es
  proof -
    have "gameState initialApp = Start \<longrightarrow> currentScene initialApp = None"
      by (simp add: initialApp_def)
    then have "currentScene (fst (run es initialApp)) = None"
      using run_Start_scene_absent [of initialApp es] that by simp
    then show ?thesis by (simp add: handleChoice_noop)
  qed
  have c: "handleChoice c (fst (run es (fst (fetchScene_begin history s))))
           = (fst (run es (fst (fetchScene_begin history s))), [])"
    if "\<forall>e \<in> set es. \<not> isSceneSettled e" for history es
  proof -
    have "currentScene (fst (fetchScene_begin history s)) = None"
      by (simp add: fetchScene_begin_def)
    then have "currentScene (fst (run es (fst (fetchScene_begin history s)))) = None"
      using that by (rule run_keeps_scene_absent)
    then show ?thesis by (simp add: handleChoice_noop)
  qed
  from a b c show ?thesis by blast
qed

text \<open>
  The theorem at the first render, and after a scene request followed by a hint request.
\<close>

theorem handleChoice_guard_witness:
  "handleChoice (ascii ''A'') initialApp = (initialApp, [])
   \<and> handleChoice (ascii ''A'') (fst (run [GetHint] (fst (fetchScene_begin [] initialApp))))
       = (fst (run [GetHint] (fst (fetchScene_begin [] initialApp))), [])"
proof -
  have a: "gameState (fst (run [] initialApp)) = Start" by (simp add: initialApp_def)
  have b: "\<forall>e \<in> set [GetHint]. \<not> isSceneSettled e" by simp
  from handleChoice_guard [of "ascii ''A''" initialApp] a b
  have "handleChoice (ascii ''A'') (fst (run [] initialApp)) = (fst (run [] initialApp), [])"
    and "handleChoice (ascii ''A'') (fst (run [GetHint] (fst (fetchScene_begin [] initialApp))))
       = (fst (run [GetHint] (fst (fetchScene_begin [] initialApp))), [])"
    by blast+
  then show ?thesis by simp
qed

text \<open>
  Claim C10 at a failing run. \<^verbatim>\<open>handleStartGame\<close> has no guard, and the start button
  stays on the screen while the first request is pending (the phase is still \<open>Start\<close>).
  Pressed twice, it issues two scene requests. When one of them settles, the scene is
  present and the loading flag is cleared while the other request is still in flight:
  \<^verbatim>\<open>handleChoice\<close> and \<^verbatim>\<open>handleGetHint\<close> are both accepted then, and a third
  scene request is issued.
\<close>

theorem double_start_scene_present_while_in_flight:
  "length (filter isSceneRequest
      (snd (run [StartGame, StartGame, SceneSettled (Inr sampleScene)] initialApp))) = 2
   \<and> length (filter isSceneSettled [StartGame, StartGame, SceneSettled (Inr sampleScene)]) = 1
   \<and> currentScene doubleStartApp = Some sampleScene
   \<and> isLoading doubleStartApp = False
   \<and> gameState doubleStartApp = Playing
   \<and> handleChoice (ascii ''A'') doubleStartApp \<noteq> (doubleStartApp, [])
   \<and> snd (handleChoice (ascii ''A'') doubleStartApp) =
       [PlaySound ChoiceSound,
        SceneRequest [\<lparr>Turn.scene = ascii ''X'', choice = ascii ''A''\<rparr>]]
   \<and> handleGetHint doubleStartApp \<noteq> (doubleStartApp, [])
   \<and> snd (handleGetHint doubleStartApp) = [PlaySound HintSound, HintRequest [] sampleScene]"
  by (simp add: doubleStartApp_def initialApp_def sampleScene_def handler_defs)










lemma step_history_prefix:
  "e \<noteq> StartGame \<Longrightarrow> e \<noteq> ResetGame \<Longrightarrow> prefix (storyHistory s) (storyHistory (fst (step e s)))"
  by (cases e) (auto simp: handler_defs split: option.splits sum.splits)

lemma run_history_prefix:
  "\<forall>e \<in> set es. e \<noteq> StartGame \<and> e \<noteq> ResetGame
     \<Longrightarrow> prefix (storyHistory s) (storyHistory (fst (run es s)))"
proof (induction es arbitrary: s)
  case Nil
  then show ?case by simp
next
  case (Cons e es)
  then have "prefix (storyHistory s) (storyHistory (fst (step e s)))"
    using step_history_prefix [of e s] by simp
  moreover have "prefix (storyHistory (fst (step e s))) (storyHistory (fst (run es (fst (step e s)))))"
    using Cons by simp
  ultimately have "prefix (storyHistory s) (storyHistory (fst (run es (fst (step e s)))))"
    by (rule prefix_order.order_trans)
  then show ?case by simp
qed

text \<open>
  Claim C7. An accepted \<^verbatim>\<open>handleChoice\<close> appends exactly one turn, made of the
  narrative of the current scene and the choice, at the end of the history; a refused one
  leaves the history as it is. Every event other than the start of a game and a reset
  keeps the old history as a prefix of the new one, and so does every run of such events.
  A reset and the start of a game empty the history.
\<close>

theorem storyHistory_append_only:
  "(currentScene s = Some cur \<and> \<not> isLoading s \<longrightarrow>
      storyHistory (fst (handleChoice c s)) =
        storyHistory s @ [\<lparr>Turn.scene = scene cur, choice = c\<rparr>])
   \<and> (currentScene s = None \<or> isLoading s \<longrightarrow>
        storyHistory (fst (handleChoice c s)) = storyHistory s)
   \<and> (\<forall>e. e \<noteq> StartGame \<and> e \<noteq> ResetGame \<longrightarrow>
         prefix (storyHistory s) (storyHistory (fst (step e s))))
   \<and> (\<forall>es. (\<forall>e \<in> set es. e \<noteq> StartGame \<and> e \<noteq> ResetGame) \<longrightarrow>
         prefix (storyHistory s) (storyHistory (fst (run es s))))
   \<and> storyHistory (fst (handleResetGame s)) = []
   \<and> storyHistory (fst (handleStartGame s)) = []"
proof -
  have c1: "currentScene s = Some cur \<and> \<not> isLoading s \<longrightarrow>
      storyHistory (fst (handleChoice c s)) =
        storyHistory s @ [\<lparr>Turn.scene = scene cur, choice = c\<rparr>]"
    by (simp add: handler_defs)
  have c2: "currentScene s = None \<or> isLoading s \<longrightarrow>
        storyHistory (fst (handleChoice c s)) = storyHistory s"
    by (auto simp: handler_defs split: option.splits)
  have c3: "\<forall>e. e \<noteq> StartGame \<and> e \<noteq> ResetGame \<longrightarrow>
         prefix (storyHistory s) (storyHistory (fst (step e s)))"
    using step_history_prefix by blast
  have c4: "\<forall>es. (\<forall>e \<in> set es. e \<noteq> StartGame \<and> e \<noteq> ResetGame) \<longrightarrow>
         prefix (storyHistory s) (storyHistory (fst (run es s)))"
    using run_history_prefix by blast
  have c7: "storyHistory (fst (handleResetGame s)) = []"
    by (simp add: handler_defs)
  have c8: "storyHistory (fst (handleStartGame s)) = []"
    by (simp add: handler_defs)
  show ?thesis
    by (rule conjI [OF c1 conjI [OF c2 conjI [OF c3 conjI [OF c4 conjI [OF c7 c8]]]]])
qed

text \<open>
  The theorem on the game in progress: the choice "A" on the scene "X" gives a history
  of one turn, which a later run extends.
\<close>

theorem storyHistory_append_only_witness:
  "storyHistory playingApp = []
   \<and> storyHistory (fst (handleChoice (ascii ''A'') playingApp)) =
       [\<lparr>Turn.scene = ascii ''X'', choice = ascii ''A''\<rparr>]
   \<and> prefix (storyHistory (fst (handleChoice (ascii ''A'') playingApp)))
       (storyHistory (fst (run [SceneSettled (Inr sampleScene), GetHint, ChooseOption (ascii ''B'')]
          (fst (handleChoice (ascii ''A'') playingApp)))))"
proof -
  have a: "currentScene playingApp = Some sampleScene \<and> \<not> isLoading playingApp"
    by (simp add: playingApp_def initialApp_def handler_defs sampleScene_def)
  have d: "storyHistory playingApp = []"
    by (simp add: playingApp_def initialApp_def handler_defs sampleScene_def)
  have g: "\<forall>e \<in> set [SceneSettled (Inr sampleScene), GetHint, ChooseOption (ascii ''B'')].
      e \<noteq> StartGame \<and> e \<noteq> ResetGame"
    by simp
  from storyHistory_append_only [of playingApp sampleScene "ascii ''A''"] a
  have b: "storyHistory (fst (handleChoice (ascii ''A'') playingApp)) =
      storyHistory playingApp @ [\<lparr>Turn.scene = scene sampleScene, choice = ascii ''A''\<rparr>]"
    by blast
  from storyHistory_append_only [of "fst (handleChoice (ascii ''A'') playingApp)"]
  have "(\<forall>e \<in> set [SceneSettled (Inr sampleScene), GetHint, ChooseOption (ascii ''B'')].
      e \<noteq> StartGame \<and> e \<noteq> ResetGame) \<longrightarrow>
      prefix (storyHistory (fst (handleChoice (ascii ''A'') playingApp)))
       (storyHistory (fst (run [SceneSettled (Inr sampleScene), GetHint, ChooseOption (ascii ''B'')]
          (fst (handleChoice (ascii ''A'') playingApp)))))"
    by blast
  with g have c: "prefix (storyHistory (fst (handleChoice (ascii ''A'') playingApp)))
       (storyHistory (fst (run [SceneSettled (Inr sampleScene), GetHint, ChooseOption (ascii ''B'')]
          (fst (handleChoice (ascii ''A'') playingApp)))))"
    by blast
  from b d have b': "storyHistory (fst (handleChoice (ascii ''A'') playingApp)) =
       [\<lparr>Turn.scene = ascii ''X'', choice = ascii ''A''\<rparr>]"
    by (simp add: sampleScene_def)
  from d b' c show ?thesis by blast
qed

text \<open>
  Claim C9. When the hint request fails (the promise of the service is rejected, or its
  response has no text), \<^verbatim>\<open>generateHint\<close> returns the fixed message and throws
  nothing. \<^verbatim>\<open>handleGetHint\<close> then stores that message as the hint and clears the
  flag of the pending hint, and a choice made afterwards is handled as it would have been
  before the hint was requested. Whatever the awaited promise does, a text is stored and
  the flag is cleared.
\<close>

theorem hint_failure_gives_placeholder:
  assumes "ai (hintPrompt history cur) False = Rejected
     \<or> ai (hintPrompt history cur) False = Resolved None"
  shows "generateHint ai history cur = noHintMessage
   \<and> (currentScene s = Some cur \<and> storyHistory s = history \<and> \<not> isHintUsed s
        \<and> \<not> isHintLoading s \<longrightarrow>
        handleGetHint_run ai s =
          s\<lparr>isHintLoading := False, isHintUsed := True, hint := Some noHintMessage\<rparr>
        \<and> (\<forall>c. snd (handleChoice c (handleGetHint_run ai s)) = snd (handleChoice c s)
              \<and> storyHistory (fst (handleChoice c (handleGetHint_run ai s)))
                  = storyHistory (fst (handleChoice c s))))
   \<and> (\<forall>r. hint (fst (handleGetHint_settled r s)) \<noteq> None
         \<and> isHintLoading (fst (handleGetHint_settled r s)) = False)"
proof -
  have a: "generateHint ai history cur = noHintMessage"
    using assms by (auto simp: generateHint_def generateHint_try_def)
  have b: "handleGetHint_run ai s =
          s\<lparr>isHintLoading := False, isHintUsed := True, hint := Some noHintMessage\<rparr>"
    if "currentScene s = Some cur \<and> storyHistory s = history \<and> \<not> isHintUsed s
        \<and> \<not> isHintLoading s"
    using that a by (simp add: handleGetHint_run_def handleGetHint_def handleGetHint_settled_def)
  have c: "snd (handleChoice c (handleGetHint_run ai s)) = snd (handleChoice c s)
      \<and> storyHistory (fst (handleChoice c (handleGetHint_run ai s)))
                  = storyHistory (fst (handleChoice c s))"
    if "currentScene s = Some cur \<and> storyHistory s = history \<and> \<not> isHintUsed s
        \<and> \<not> isHintLoading s" for c
    using b [OF that] by (auto simp: handler_defs split: option.splits)
  have d: "\<forall>r. hint (fst (handleGetHint_settled r s)) \<noteq> None
         \<and> isHintLoading (fst (handleGetHint_settled r s)) = False"
    by (auto simp: handleGetHint_settled_def split: sum.splits)
  from a b c d show ?thesis by blast
qed

text \<open>
  The theorem on the game in progress with a service that rejects every request.
\<close>

theorem hint_failure_gives_placeholder_witness:
  "generateHint serviceRejects [] sampleScene = noHintMessage
   \<and> hint (handleGetHint_run serviceRejects playingApp) = Some noHintMessage
   \<and> isHintLoading (handleGetHint_run serviceRejects playingApp) = False
   \<and> snd (handleChoice (ascii ''A'') (handleGetHint_run serviceRejects playingApp)) =
       [PlaySound ChoiceSound,
        SceneRequest [\<lparr>Turn.scene = ascii ''X'', choice = ascii ''A''\<rparr>]]"
proof -
  have a: "currentScene playingApp = Some sampleScene \<and> storyHistory playingApp = []
      \<and> \<not> isHintUsed playingApp \<and> \<not> isHintLoading playingApp"
    by (simp add: playingApp_def initialApp_def handler_defs sampleScene_def)
  have r: "serviceRejects (hintPrompt [] sampleScene) False = Rejected"
    by (simp add: serviceRejects_def)
  have n: "\<not> isLoading playingApp"
    by (simp add: playingApp_def initialApp_def handler_defs sampleScene_def)
  from hint_failure_gives_placeholder [of serviceRejects "[]" sampleScene playingApp] r a
  have g: "generateHint serviceRejects [] sampleScene = noHintMessage"
    and h: "handleGetHint_run serviceRejects playingApp =
          playingApp\<lparr>isHintLoading := False, isHintUsed := True, hint := Some noHintMessage\<rparr>"
    by blast+
  have c: "snd (handleChoice (ascii ''A'') (handleGetHint_run serviceRejects playingApp)) =
       [PlaySound ChoiceSound,
        SceneRequest [\<lparr>Turn.scene = ascii ''X'', choice = ascii ''A''\<rparr>]]"
    using a n by (simp add: h handler_defs sampleScene_def)
  from g h c show ?thesis by simp
qed

end
